theory Spec2Isabelle
  imports Main
begin

section \<open>JavaScript values\<close>

text \<open>
  The values that \<^verbatim>\<open>response.json()\<close> produces, together with \<^verbatim>\<open>undefined\<close>, which
  reading a missing property yields. A number of a JSON text is an integer that is a
  double; arithmetic is in the section on numbers. Strings are byte strings (UTF-8).
\<close>

datatype jsval =
    JUndefined
  | JNull
  | JBool bool
  | JNum int
  | JStr string
  | JArr "jsval list"
  | JObj "(string \<times> jsval) list"

text \<open>The values a \<^verbatim>\<open>throw\<close> or a rejected promise carries.\<close>

datatype error =
    HttpError nat    \<comment> \<open>\<^verbatim>\<open>new Error(`HTTP error! Status: ${response.status}`)\<close>\<close>
  | NetworkError     \<comment> \<open>\<^verbatim>\<open>fetch\<close> rejects\<close>
  | SyntaxError      \<comment> \<open>\<^verbatim>\<open>response.json()\<close> rejects: the body is not JSON\<close>
  | TypeError        \<comment> \<open>a property of \<^verbatim>\<open>null\<close> or \<^verbatim>\<open>undefined\<close> is read\<close>
  | RangeError       \<comment> \<open>\<^verbatim>\<open>toISOString\<close> of an invalid date\<close>
  | SigningError     \<comment> \<open>\<^verbatim>\<open>tlSigning.sign\<close> throws\<close>

text \<open>\<^verbatim>\<open>v.k\<close> for a data property \<open>k\<close>: throws on \<^verbatim>\<open>null\<close> and \<^verbatim>\<open>undefined\<close>, and is
  \<^verbatim>\<open>undefined\<close> where the property is missing.\<close>

fun get_prop :: "jsval \<Rightarrow> string \<Rightarrow> error + jsval" where
  "get_prop JUndefined k = Inl TypeError"
| "get_prop JNull k = Inl TypeError"
| "get_prop (JObj kvs) k = Inr (case map_of kvs k of None \<Rightarrow> JUndefined | Some v \<Rightarrow> v)"
| "get_prop v k = Inr JUndefined"

text \<open>The truth value of \<open>v\<close> in \<^verbatim>\<open>v || d\<close> and \<^verbatim>\<open>if (v)\<close>.\<close>

fun truthy :: "jsval \<Rightarrow> bool" where
  "truthy JUndefined = False"
| "truthy JNull = False"
| "truthy (JBool b) = b"
| "truthy (JNum n) = (n \<noteq> 0)"
| "truthy (JStr s) = (s \<noteq> [])"
| "truthy v = True"

fun nat_to_string :: "nat \<Rightarrow> string" where
  "nat_to_string n =
     (if n < 10 then [''0123456789'' ! n]
      else nat_to_string (n div 10) @ [''0123456789'' ! (n mod 10)])"

declare nat_to_string.simps [simp del]

fun join :: "string \<Rightarrow> string list \<Rightarrow> string" where
  "join sep [] = []"
| "join sep [x] = x"
| "join sep (x # y # ys) = x @ sep @ join sep (y # ys)"

text \<open>The string a template literal \<^verbatim>\<open>`${v}`\<close> inserts.\<close>

fun js_to_string :: "jsval \<Rightarrow> string" where
  "js_to_string JUndefined = ''undefined''"
| "js_to_string JNull = ''null''"
| "js_to_string (JBool b) = (if b then ''true'' else ''false'')"
| "js_to_string (JNum n) =
     (if n < 0 then CHR ''-'' # nat_to_string (nat (- n)) else nat_to_string (nat n))"
| "js_to_string (JStr s) = s"
| "js_to_string (JArr xs) =
     join '','' (map (\<lambda>x. if x = JUndefined \<or> x = JNull then [] else js_to_string x) xs)"
| "js_to_string (JObj kvs) = ''[object Object]''"

section \<open>Numbers\<close>

text \<open>
  A JavaScript number is an IEEE 754 double. The numbers of this model are the doubles
  that are integers, the two infinities and \<^verbatim>\<open>NaN\<close>; a number with a fraction is not a
  value of the model. \<open>round_double x\<close> is the double nearest to the integer \<open>x\<close>, ties
  going to the even mantissa of 53 bits, and an infinity from \<open>2^1024\<close> on. Product and
  sum of two doubles are the exact product and sum, rounded.
\<close>

datatype number = Finite int | PlusInfinity | MinusInfinity | NaN

fun bit_length :: "nat \<Rightarrow> nat" where
  "bit_length n = (if n = 0 then 0 else Suc (bit_length (n div 2)))"

declare bit_length.simps [simp del]

definition round_double :: "int \<Rightarrow> number" where
  "round_double x =
     (let a = nat \<bar>x\<bar>; l = bit_length a
      in if l \<le> 53 then Finite x
         else
           (let sh = l - 53;
                q = a div 2 ^ sh;
                r = a mod 2 ^ sh;
                up = (r > 2 ^ (sh - 1) \<or> (r = 2 ^ (sh - 1) \<and> odd q));
                v = (if up then q + 1 else q) * 2 ^ sh
            in if v \<ge> 2 ^ 1024 then (if x < 0 then MinusInfinity else PlusInfinity)
               else Finite (if x < 0 then - int v else int v)))"

text \<open>The sign of a number that is not \<^verbatim>\<open>NaN\<close>, and the infinity of a sign.\<close>

fun sign_of :: "number \<Rightarrow> int" where
  "sign_of (Finite a) = sgn a"
| "sign_of PlusInfinity = 1"
| "sign_of MinusInfinity = - 1"
| "sign_of NaN = 0"

definition infinity_of :: "int \<Rightarrow> number" where
  "infinity_of s = (if s > 0 then PlusInfinity else if s < 0 then MinusInfinity else NaN)"

text \<open>\<^verbatim>\<open>a * b\<close>: an infinity times zero is \<^verbatim>\<open>NaN\<close>.\<close>

fun js_times :: "number \<Rightarrow> number \<Rightarrow> number" where
  "js_times NaN y = NaN"
| "js_times x NaN = NaN"
| "js_times (Finite a) (Finite b) = round_double (a * b)"
| "js_times x y = infinity_of (sign_of x * sign_of y)"

text \<open>\<^verbatim>\<open>a + b\<close>: the sum of the two infinities is \<^verbatim>\<open>NaN\<close>.\<close>

fun js_plus :: "number \<Rightarrow> number \<Rightarrow> number" where
  "js_plus NaN y = NaN"
| "js_plus x NaN = NaN"
| "js_plus (Finite a) (Finite b) = round_double (a + b)"
| "js_plus (Finite a) y = y"
| "js_plus x (Finite b) = x"
| "js_plus x y = (if x = y then x else NaN)"

section \<open>Form encoding\<close>

text \<open>
  \<^verbatim>\<open>URLSearchParams.prototype.toString\<close>: the application/x-www-form-urlencoded
  serializer. Letters, digits and \<^verbatim>\<open>*-._\<close> stay, a space becomes \<^verbatim>\<open>+\<close>, every other byte
  becomes \<^verbatim>\<open>%XX\<close>.
\<close>

definition unreserved :: "char \<Rightarrow> bool" where
  "unreserved c =
     (c \<in> set ''ABCDEFGHIJKLMNOPQRSTUVWXYZabcdefghijklmnopqrstuvwxyz0123456789*-._'')"

definition hex_digit :: "nat \<Rightarrow> char" where
  "hex_digit n = ''0123456789ABCDEF'' ! n"

definition encode_byte :: "char \<Rightarrow> string" where
  "encode_byte c =
     (if unreserved c then [c]
      else if c = CHR '' '' then ''+''
      else [CHR ''%'', hex_digit (of_char c div 16), hex_digit (of_char c mod 16)])"

definition form_encode :: "string \<Rightarrow> string" where
  "form_encode s = concat (map encode_byte s)"

definition params_toString :: "(string \<times> string) list \<Rightarrow> string" where
  "params_toString ps = join ''&'' (map (\<lambda>(k, v). form_encode k @ ''='' @ form_encode v) ps)"

section \<open>The query of a URL\<close>

text \<open>
  What the receiver of a URL takes as its query: the text after the first \<^verbatim>\<open>?\<close>, up to
  the first \<^verbatim>\<open>#\<close>. \<open>parse_query\<close> is the application/x-www-form-urlencoded parser: the
  query is split at \<^verbatim>\<open>&\<close>, empty pieces are dropped, each piece is split at its first
  \<^verbatim>\<open>=\<close>, and name and value are decoded (\<^verbatim>\<open>+\<close> is a space, \<^verbatim>\<open>%XX\<close> a byte).
\<close>

definition url_query :: "string \<Rightarrow> string" where
  "url_query u =
     drop 1 (dropWhile (\<lambda>c. c \<noteq> CHR ''?'') (takeWhile (\<lambda>c. c \<noteq> CHR ''#'') u))"

fun split_on :: "char \<Rightarrow> string \<Rightarrow> string list" where
  "split_on d [] = [[]]"
| "split_on d (c # cs) =
     (if c = d then [] # split_on d cs
      else (case split_on d cs of [] \<Rightarrow> [[c]] | x # xs \<Rightarrow> (c # x) # xs))"

definition hex_val :: "char \<Rightarrow> nat option" where
  "hex_val c =
     (if c \<in> set ''0123456789'' then Some (of_char c - 48)
      else if c \<in> set ''ABCDEF'' then Some (of_char c - 55)
      else if c \<in> set ''abcdef'' then Some (of_char c - 87)
      else None)"

fun form_decode :: "string \<Rightarrow> string" where
  "form_decode [] = []"
| "form_decode (c # cs) =
     (if c = CHR ''+'' then CHR '' '' # form_decode cs
      else if c = CHR ''%'' then
        (case cs of
           a # b # rest \<Rightarrow>
             (case hex_val a of
                None \<Rightarrow> c # form_decode cs
              | Some x \<Rightarrow>
                  (case hex_val b of
                     None \<Rightarrow> c # form_decode cs
                   | Some y \<Rightarrow> char_of (16 * x + y) # form_decode rest))
         | _ \<Rightarrow> c # form_decode cs)
      else c # form_decode cs)"

definition parse_query :: "string \<Rightarrow> (string \<times> string) list" where
  "parse_query q =
     map (\<lambda>p. (form_decode (takeWhile (\<lambda>c. c \<noteq> CHR ''='') p),
                form_decode (drop 1 (dropWhile (\<lambda>c. c \<noteq> CHR ''='') p))))
         (filter (\<lambda>p. p \<noteq> []) (split_on CHR ''&'' q))"

section \<open>Configuration, credentials and the host\<close>

record config_type =
  userAgent :: string
  tokenScope :: string
  tokenGrantType :: string
  tokenExpiryFallbackSeconds :: int
  tokenExpiryBufferMs :: int
  paymentLinkExpiryHours :: int

definition config :: config_type where
  "config = \<lparr> userAgent = ''truelayer-mcp/1.0.0'',
              tokenScope = ''paydirect payments'',
              tokenGrantType = ''client_credentials'',
              tokenExpiryFallbackSeconds = 1800,
              tokenExpiryBufferMs = 60000,
              paymentLinkExpiryHours = 24 \<rparr>"

text \<open>The argument of \<^verbatim>\<open>tlSigning.sign\<close>.\<close>

record sign_args =
  kid :: string
  privateKeyPem :: string
  sign_method :: string
  sign_path :: string
  sign_headers :: "(string \<times> string) list"
  sign_body :: string

text \<open>
  What the source imports and does not define: the constants of \<^verbatim>\<open>./auth.js\<close>, the
  signer of the package \<^verbatim>\<open>truelayer-signing\<close>, and the builtins of the JavaScript host.
  The signer gets the number of earlier calls too, so that a randomised signature scheme
  is covered; it throws (\<open>Inl\<close>) or returns the signature.
  \<open>StringToNumber\<close> is the number a string converts to in arithmetic.
  \<open>LocalTZA\<close> is the offset of local time (ECMA-262, LocalTZA(t, isUTC)),
  \<open>month_start t\<close> the day number of the first day of the month that holds the local
  time \<open>t\<close>, \<open>toISOString\<close> the text of a valid time value, \<open>Date_parse\<close> the time
  value \<^verbatim>\<open>new Date(string)\<close> holds. \<open>JSON_stringify v indent\<close> is
  \<^verbatim>\<open>JSON.stringify(v, null, indent)\<close>, \<open>error_toString\<close> the text an error gives when
  it is appended to a string.
\<close>

record env =
  KID :: string
  PRIVATE_KEY_PEM :: string
  CLIENT_ID :: string
  CLIENT_SECRET :: string
  MERCHANT_ACCOUNT_ID :: string
  AUTH_URI :: string
  BASE_URI :: string
  tlSigning_sign :: "nat \<Rightarrow> sign_args \<Rightarrow> error + string"
  StringToNumber :: "string \<Rightarrow> number"
  LocalTZA :: "int \<Rightarrow> bool \<Rightarrow> int"
  month_start :: "int \<Rightarrow> int"
  toISOString :: "int \<Rightarrow> string"
  Date_parse :: "string \<Rightarrow> int option"
  JSON_stringify :: "jsval \<Rightarrow> nat \<Rightarrow> string"
  error_toString :: "error \<Rightarrow> string"

text \<open>The number an operand of \<^verbatim>\<open>*\<close> converts to.\<close>

fun ToNumber :: "env \<Rightarrow> jsval \<Rightarrow> number" where
  "ToNumber env JUndefined = NaN"
| "ToNumber env JNull = Finite 0"
| "ToNumber env (JBool b) = Finite (if b then 1 else 0)"
| "ToNumber env (JNum n) = Finite n"
| "ToNumber env (JStr s) = StringToNumber env s"
| "ToNumber env v = StringToNumber env (js_to_string v)"

section \<open>The world: clock, network, signer calls, console\<close>

text \<open>
  The two arguments of \<^verbatim>\<open>fetch\<close>: the URL and the options, whose \<^verbatim>\<open>method\<close> is
  \<open>http_method\<close> here.
\<close>

record request =
  url :: string
  http_method :: string
  headers :: "(string \<times> string) list"
  body :: "string option"

text \<open>What \<^verbatim>\<open>response.json()\<close> gives: a rejection, or the parsed value.\<close>

datatype payload = NotJson | Json jsval

datatype reply = NetworkFailure | Response nat payload

datatype log_entry = RequestFailed error | Logged jsval

text \<open>
  \<open>clock\<close> holds the successive readings of \<^verbatim>\<open>Date.now()\<close> and \<open>reads\<close> counts the
  readings taken; \<open>net n\<close> is the reply to the \<open>n\<close>-th call of \<^verbatim>\<open>fetch\<close> and \<open>sent\<close> the
  requests passed to \<^verbatim>\<open>fetch\<close> so far, oldest first; \<open>sign_calls\<close> are the arguments
  passed to the signer so far; \<open>uuids\<close> are the values \<^verbatim>\<open>uuidv4()\<close> returns and \<open>drawn\<close>
  counts them. Every \<^verbatim>\<open>fetch\<close> settles: a call that hangs is outside the model.
\<close>

record world =
  clock :: "nat \<Rightarrow> int"
  reads :: nat
  net :: "nat \<Rightarrow> reply"
  sent :: "request list"
  sign_calls :: "sign_args list"
  uuids :: "nat \<Rightarrow> string"
  drawn :: nat
  console :: "log_entry list"

definition Date_now :: "world \<Rightarrow> int \<times> world" where
  "Date_now w = (clock w (reads w), w\<lparr>reads := Suc (reads w)\<rparr>)"

definition uuidv4 :: "world \<Rightarrow> string \<times> world" where
  "uuidv4 w = (uuids w (drawn w), w\<lparr>drawn := Suc (drawn w)\<rparr>)"

definition fetch :: "request \<Rightarrow> world \<Rightarrow> reply \<times> world" where
  "fetch r w = (net w (length (sent w)), w\<lparr>sent := sent w @ [r]\<rparr>)"

definition sign :: "env \<Rightarrow> sign_args \<Rightarrow> world \<Rightarrow> (error + string) \<times> world" where
  "sign env a w =
     (tlSigning_sign env (length (sign_calls w)) a, w\<lparr>sign_calls := sign_calls w @ [a]\<rparr>)"

definition console_error :: "log_entry \<Rightarrow> world \<Rightarrow> world" where
  "console_error e w = w\<lparr>console := console w @ [e]\<rparr>"

text \<open>\<^verbatim>\<open>response.ok\<close>\<close>

definition ok :: "nat \<Rightarrow> bool" where
  "ok status = (200 \<le> status \<and> status \<le> 299)"

text \<open>\<^verbatim>\<open>{...headers, [k]: v}\<close>: the key keeps its place when it is there already.\<close>

fun spread_with :: "(string \<times> string) list \<Rightarrow> string \<Rightarrow> string \<Rightarrow> (string \<times> string) list" where
  "spread_with [] k v = [(k, v)]"
| "spread_with ((k', v') # hs) k v =
     (if k' = k then (k, v) # hs else (k', v') # spread_with hs k v)"

section \<open>Token manager (truelayer.ts)\<close>

record token_cache =
  token :: jsval
  expiresAt :: number

text \<open>\<^verbatim>\<open>const tokenCache = { token: null, expiresAt: 0 }\<close>\<close>

definition tokenCache :: token_cache where
  "tokenCache = \<lparr> token = JNull, expiresAt = Finite 0 \<rparr>"

record state =
  cache :: token_cache
  world :: world

text \<open>\<^verbatim>\<open>a > b\<close> for a finite \<open>b\<close>: false when \<open>a\<close> is \<^verbatim>\<open>NaN\<close>.\<close>

definition js_gt :: "number \<Rightarrow> int \<Rightarrow> bool" where
  "js_gt a b =
     (case a of
        Finite x \<Rightarrow> x > b
      | PlusInfinity \<Rightarrow> True
      | MinusInfinity \<Rightarrow> False
      | NaN \<Rightarrow> False)"

text \<open>
  \<^verbatim>\<open>tokenCache.token !== null && tokenCache.expiresAt > Date.now() + config.tokenExpiryBufferMs\<close>:
  the clock is read only when the token is not \<^verbatim>\<open>null\<close>. A reading of the clock is a
  time value, at most 8.64e15 in magnitude, so that its sum with the buffer is exact.
\<close>

definition isTokenValid :: "state \<Rightarrow> bool \<times> state" where
  "isTokenValid s =
     (if token (cache s) \<noteq> JNull then
        (let (now, w) = Date_now (world s)
         in (js_gt (expiresAt (cache s)) (now + tokenExpiryBufferMs config), s\<lparr>world := w\<rparr>))
      else (False, s))"

text \<open>
  \<^verbatim>\<open>generateAccessToken\<close>: the signer is called before the \<^verbatim>\<open>try\<close>; inside it, a rejected
  \<^verbatim>\<open>fetch\<close>, a status that is not ok and a body that is not JSON are logged and thrown
  again. The parsed body is returned as it is.
\<close>

definition generateAccessToken :: "env \<Rightarrow> world \<Rightarrow> (error + jsval) \<times> world" where
  "generateAccessToken env w =
     (let formData = params_toString
            [(''client_id'', CLIENT_ID env),
             (''client_secret'', CLIENT_SECRET env),
             (''scope'', tokenScope config),
             (''grant_type'', tokenGrantType config)];
          hs = [(''Content-Type'', ''application/x-www-form-urlencoded''),
                (''User-Agent'', userAgent config)];
          (sg, w1) = sign env \<lparr> kid = KID env, privateKeyPem = PRIVATE_KEY_PEM env,
                                sign_method = ''POST'', sign_path = ''/connect/token'',
                                sign_headers = hs, sign_body = formData \<rparr> w
      in case sg of
           Inl e \<Rightarrow> (Inl e, w1)
         | Inr signature \<Rightarrow>
             (let (rep, w2) = fetch \<lparr> url = AUTH_URI env, http_method = ''POST'',
                                      headers = spread_with hs ''Tl-Signature'' signature,
                                      body = Some formData \<rparr> w1
              in case rep of
                   NetworkFailure \<Rightarrow>
                     (Inl NetworkError, console_error (RequestFailed NetworkError) w2)
                 | Response status b \<Rightarrow>
                     if \<not> ok status
                     then (Inl (HttpError status),
                           console_error (RequestFailed (HttpError status)) w2)
                     else (case b of
                             NotJson \<Rightarrow>
                               (Inl SyntaxError, console_error (RequestFailed SyntaxError) w2)
                           | Json data \<Rightarrow> (Inr data, w2))))"

text \<open>
  \<^verbatim>\<open>getAccessToken\<close>: the token is stored before \<^verbatim>\<open>expires_in\<close> is read; the clock is
  read again after the exchange. \<^verbatim>\<open>Date.now() + (expiresIn * 1000)\<close> is computed in
  doubles.
\<close>

definition getAccessToken :: "env \<Rightarrow> state \<Rightarrow> (error + jsval) \<times> state" where
  "getAccessToken env s =
     (let (valid, s1) = isTokenValid s
      in if valid then (Inr (token (cache s1)), s1)
         else
           (let (r, w2) = generateAccessToken env (world s1)
            in case r of
                 Inl e \<Rightarrow> (Inl e, s1\<lparr>world := w2\<rparr>)
               | Inr tokenResponse \<Rightarrow>
                   (case get_prop tokenResponse ''access_token'' of
                      Inl e \<Rightarrow> (Inl e, s1\<lparr>world := w2\<rparr>)
                    | Inr tok \<Rightarrow>
                        (case get_prop tokenResponse ''expires_in'' of
                           Inl e \<Rightarrow> (Inl e, \<lparr> cache = (cache s1)\<lparr>token := tok\<rparr>, world = w2 \<rparr>)
                         | Inr ei \<Rightarrow>
                             (let expiresIn =
                                    (if truthy ei then ei
                                     else JNum (tokenExpiryFallbackSeconds config));
                                  (now, w3) = Date_now w2;
                                  c = \<lparr> token = tok,
                                        expiresAt =
                                          js_plus (Finite now)
                                            (js_times (ToNumber env expiresIn)
                                               (Finite 1000)) \<rparr>
                              in (Inr (token c), \<lparr> cache = c, world = w3 \<rparr>))))))"

section \<open>API operations (truelayer.ts)\<close>

text \<open>\<^verbatim>\<open>await response.json()\<close>\<close>

definition response_json :: "payload \<Rightarrow> error + jsval" where
  "response_json b = (case b of NotJson \<Rightarrow> Inl SyntaxError | Json data \<Rightarrow> Inr data)"

text \<open>
  The three reading operations send an unsigned GET and return the parsed body; the
  status of the response is not read.
\<close>

definition getPayout :: "env \<Rightarrow> string \<Rightarrow> state \<Rightarrow> (error + jsval) \<times> state" where
  "getPayout env paymentId s =
     (case getAccessToken env s of
        (Inl e, s1) \<Rightarrow> (Inl e, s1)
      | (Inr access_token, s1) \<Rightarrow>
          (let (rep, w) = fetch \<lparr> url = BASE_URI env @ ''/v3/payouts/'' @ paymentId,
                                   http_method = ''GET'',
                                   headers =
                                     [(''Authorization'', ''Bearer '' @ js_to_string access_token),
                                      (''Accept'', ''application/json; charset=UTF-8''),
                                      (''User-Agent'', userAgent config)],
                                   body = None \<rparr> (world s1)
           in (case rep of
                 NetworkFailure \<Rightarrow> Inl NetworkError
               | Response status b \<Rightarrow> response_json b,
               s1\<lparr>world := w\<rparr>)))"

definition getPayment :: "env \<Rightarrow> string \<Rightarrow> state \<Rightarrow> (error + jsval) \<times> state" where
  "getPayment env paymentId s =
     (case getAccessToken env s of
        (Inl e, s1) \<Rightarrow> (Inl e, s1)
      | (Inr access_token, s1) \<Rightarrow>
          (let path = ''/v3/payments/'' @ paymentId;
               (rep, w) = fetch \<lparr> url = BASE_URI env @ path,
                                   http_method = ''GET'',
                                   headers =
                                     [(''Authorization'', ''Bearer '' @ js_to_string access_token),
                                      (''Accept'', ''application/json; charset=UTF-8''),
                                      (''User-Agent'', userAgent config)],
                                   body = None \<rparr> (world s1)
           in (case rep of
                 NetworkFailure \<Rightarrow> Inl NetworkError
               | Response status b \<Rightarrow> response_json b,
               s1\<lparr>world := w\<rparr>)))"

definition getPaymentLink :: "env \<Rightarrow> string \<Rightarrow> state \<Rightarrow> (error + jsval) \<times> state" where
  "getPaymentLink env paymentLinkId s =
     (case getAccessToken env s of
        (Inl e, s1) \<Rightarrow> (Inl e, s1)
      | (Inr access_token, s1) \<Rightarrow>
          (let path = ''/v3/payment-links/'' @ paymentLinkId;
               (rep, w) = fetch \<lparr> url = BASE_URI env @ path,
                                   http_method = ''GET'',
                                   headers =
                                     [(''Authorization'', ''Bearer '' @ js_to_string access_token),
                                      (''Accept'', ''application/json; charset=UTF-8''),
                                      (''User-Agent'', userAgent config)],
                                   body = None \<rparr> (world s1)
           in (case rep of
                 NetworkFailure \<Rightarrow> Inl NetworkError
               | Response status b \<Rightarrow> response_json b,
               s1\<lparr>world := w\<rparr>)))"

text \<open>
  The two creating operations sign \<open>hs\<close> and \<open>bodyStr\<close> and send the same \<open>hs\<close>,
  spread into an object with the signature, and the same \<open>bodyStr\<close>. A signer that
  throws ends the operation before \<^verbatim>\<open>fetch\<close>. The request is a value that
  \<^verbatim>\<open>JSON.stringify\<close> turns into a string.
\<close>

definition createPayout :: "env \<Rightarrow> jsval \<Rightarrow> state \<Rightarrow> (error + jsval) \<times> state" where
  "createPayout env payoutRequest s =
     (case getAccessToken env s of
        (Inl e, s1) \<Rightarrow> (Inl e, s1)
      | (Inr access_token, s1) \<Rightarrow>
          (let path = ''/v3/payouts'';
               bodyStr = JSON_stringify env payoutRequest 0;
               (idempotencyKey, w1) = uuidv4 (world s1);
               hs = [(''Authorization'', ''Bearer '' @ js_to_string access_token),
                     (''Content-Type'', ''application/json; charset=UTF-8''),
                     (''Accept'', ''application/json; charset=UTF-8''),
                     (''Idempotency-Key'', idempotencyKey),
                     (''User-Agent'', userAgent config)];
               (sg, w2) = sign env \<lparr> kid = KID env, privateKeyPem = PRIVATE_KEY_PEM env,
                                     sign_method = ''POST'', sign_path = path,
                                     sign_headers = hs, sign_body = bodyStr \<rparr> w1
           in case sg of
                Inl e \<Rightarrow> (Inl e, s1\<lparr>world := w2\<rparr>)
              | Inr signature \<Rightarrow>
                  (let (rep, w3) = fetch \<lparr> url = BASE_URI env @ path,
                                           http_method = ''POST'',
                                           headers = spread_with hs ''Tl-Signature'' signature,
                                           body = Some bodyStr \<rparr> w2
                   in (case rep of
                         NetworkFailure \<Rightarrow> Inl NetworkError
                       | Response status b \<Rightarrow> response_json b,
                       s1\<lparr>world := w3\<rparr>))))"

definition createPaymentLink :: "env \<Rightarrow> jsval \<Rightarrow> state \<Rightarrow> (error + jsval) \<times> state" where
  "createPaymentLink env paymentLinkRequest s =
     (case getAccessToken env s of
        (Inl e, s1) \<Rightarrow> (Inl e, s1)
      | (Inr access_token, s1) \<Rightarrow>
          (let path = ''/v3/payment-links'';
               (idempotencyKey, w1) = uuidv4 (world s1);
               hs = [(''Authorization'', ''Bearer '' @ js_to_string access_token),
                     (''Content-Type'', ''application/json; charset=UTF-8''),
                     (''Accept'', ''application/json; charset=UTF-8''),
                     (''Idempotency-Key'', idempotencyKey),
                     (''User-Agent'', userAgent config)];
               bodyStr = JSON_stringify env paymentLinkRequest 0;
               (sg, w2) = sign env \<lparr> kid = KID env, privateKeyPem = PRIVATE_KEY_PEM env,
                                     sign_method = ''POST'', sign_path = path,
                                     sign_headers = hs, sign_body = bodyStr \<rparr> w1
           in case sg of
                Inl e \<Rightarrow> (Inl e, s1\<lparr>world := w2\<rparr>)
              | Inr signature \<Rightarrow>
                  (let (rep, w3) = fetch \<lparr> url = BASE_URI env @ path,
                                           http_method = ''POST'',
                                           headers = spread_with hs ''Tl-Signature'' signature,
                                           body = Some bodyStr \<rparr> w2
                   in (case rep of
                         NetworkFailure \<Rightarrow> Inl NetworkError
                       | Response status b \<Rightarrow> response_json b,
                       s1\<lparr>world := w3\<rparr>))))"

text \<open>An optional string argument is truthy when it is there and not empty.\<close>

definition given :: "string option \<Rightarrow> bool" where
  "given x = (case x of None \<Rightarrow> False | Some t \<Rightarrow> t \<noteq> [])"

text \<open>
  \<^verbatim>\<open>listTransactions\<close>: \<^verbatim>\<open>from\<close> and \<^verbatim>\<open>to\<close> are appended, \<^verbatim>\<open>cursor\<close> only
  \<^verbatim>\<open>if (cursor)\<close>; the parsed body is logged and returned.
\<close>

definition listTransactions ::
    "env \<Rightarrow> string \<Rightarrow> string \<Rightarrow> string \<Rightarrow> string option \<Rightarrow> state \<Rightarrow> (error + jsval) \<times> state" where
  "listTransactions env from' to' merchant_account_id cursor s =
     (case getAccessToken env s of
        (Inl e, s1) \<Rightarrow> (Inl e, s1)
      | (Inr access_token, s1) \<Rightarrow>
          (let params = [(''from'', from'), (''to'', to')]
                        @ (if given cursor then [(''cursor'', the cursor)] else []);
               queryString = params_toString params;
               (rep, w) = fetch \<lparr> url = BASE_URI env @ ''/v3/merchant-accounts/''
                                          @ merchant_account_id @ ''/transactions?'' @ queryString,
                                   http_method = ''GET'',
                                   headers =
                                     [(''Authorization'', ''Bearer '' @ js_to_string access_token),
                                      (''Accept'', ''application/json; charset=UTF-8''),
                                      (''User-Agent'', userAgent config)],
                                   body = None \<rparr> (world s1)
           in case rep of
                NetworkFailure \<Rightarrow> (Inl NetworkError, s1\<lparr>world := w\<rparr>)
              | Response status b \<Rightarrow>
                  (case response_json b of
                     Inl e \<Rightarrow> (Inl e, s1\<lparr>world := w\<rparr>)
                   | Inr data \<Rightarrow> (Inr data, s1\<lparr>world := console_error (Logged data) w\<rparr>))))"

section \<open>Dates (ECMA-262) and tool handlers (index.ts)\<close>

text \<open>
  A \<^verbatim>\<open>Date\<close> holds a time value in milliseconds, or \<^verbatim>\<open>NaN\<close> (\<open>None\<close>).
  \<^verbatim>\<open>getDate\<close> is the day of the month in local time. \<^verbatim>\<open>setDate(dt)\<close> is
  MakeDate(MakeDay(YearFromTime(t), MonthFromTime(t), dt), TimeWithinDay(t)) on the local
  time \<open>t\<close>, taken back to UTC and clipped; MakeDay of the year and month of \<open>t\<close> counts
  \<open>dt - 1\<close> days from the first day of that month, also when \<open>dt\<close> is not a day of it.
\<close>

definition msPerDay :: int where
  "msPerDay = 86400000"



definition Day :: "int \<Rightarrow> int" where
  "Day t = t div msPerDay"









text \<open>The text of a caught error in \<^verbatim>\<open>"Failed to ...: " + error\<close>.\<close>

definition error_text :: "env \<Rightarrow> error \<Rightarrow> string" where
  "error_text env e =
     (case e of
        HttpError status \<Rightarrow> ''Error: HTTP error! Status: '' @ nat_to_string status
      | _ \<Rightarrow> error_toString env e)"

text \<open>
  The handler of \<^verbatim>\<open>truelayer-get-payout\<close>: the result of \<^verbatim>\<open>getPayout\<close> is printed as
  details of the payout, and only what is thrown becomes the text of a failure.
\<close>

definition get_payout_tool :: "env \<Rightarrow> string \<Rightarrow> state \<Rightarrow> string \<times> state" where
  "get_payout_tool env payoutId s =
     (case getPayout env payoutId s of
        (Inl e, s') \<Rightarrow> (''Failed to retrieve payout: '' @ error_text env e, s')
      | (Inr payout, s') \<Rightarrow> (''Payout details: '' @ JSON_stringify env payout 2, s'))"

text \<open>
  The handler of \<^verbatim>\<open>truelayer-create-payout\<close>: it builds the request from its arguments
  and prints the result of \<^verbatim>\<open>createPayout\<close> as a payout that was created.
\<close>

definition create_payout_tool ::
    "env \<Rightarrow> string \<Rightarrow> string \<Rightarrow> int \<Rightarrow> jsval \<Rightarrow> state \<Rightarrow> string \<times> state" where
  "create_payout_tool env currency merchant_account_id amount_in_minor beneficiary s =
     (let payoutRequest = JObj [(''currency'', JStr currency),
                                (''amount_in_minor'', JNum amount_in_minor),
                                (''merchant_account_id'', JStr merchant_account_id),
                                (''beneficiary'', beneficiary)]
      in case createPayout env payoutRequest s of
           (Inl e, s') \<Rightarrow> (''Failed to create payout: '' @ error_text env e, s')
         | (Inr payout, s') \<Rightarrow>
             (''Payout created successfully: '' @ JSON_stringify env payout 0, s'))"


section \<open>Notions the properties are stated with\<close>

text \<open>The state after \<open>n\<close> successive calls of \<^verbatim>\<open>getAccessToken\<close>.\<close>

fun calls :: "env \<Rightarrow> nat \<Rightarrow> state \<Rightarrow> state" where
  "calls env 0 s = s"
| "calls env (Suc n) s = calls env n (snd (getAccessToken env s))"

text \<open>\<^verbatim>\<open>null\<close> or a string that is not empty.\<close>

fun token_ok :: "jsval \<Rightarrow> bool" where
  "token_ok JNull = True"
| "token_ok (JStr t) = (t \<noteq> [])"
| "token_ok v = False"

text \<open>The six API operations, to speak of all of them at once.\<close>

datatype api_call =
    GetPayout string
  | GetPayment string
  | GetPaymentLink string
  | CreatePayout jsval
  | CreatePaymentLink jsval
  | ListTransactions string string string "string option"

fun call :: "env \<Rightarrow> api_call \<Rightarrow> state \<Rightarrow> (error + jsval) \<times> state" where
  "call env (GetPayout i) s = getPayout env i s"
| "call env (GetPayment i) s = getPayment env i s"
| "call env (GetPaymentLink i) s = getPaymentLink env i s"
| "call env (CreatePayout r) s = createPayout env r s"
| "call env (CreatePaymentLink r) s = createPaymentLink env r s"
| "call env (ListTransactions f t m c) s = listTransactions env f t m c s"

text \<open>
  The request \<open>r\<close> carries the headers given to the signer in \<open>a\<close>, then one header
  \<^verbatim>\<open>Tl-Signature\<close> that is not among them, and the body given to the signer.
\<close>

definition signed_as_sent :: "sign_args \<Rightarrow> string \<Rightarrow> request \<Rightarrow> bool" where
  "signed_as_sent a signature r =
     (headers r = sign_headers a @ [(''Tl-Signature'', signature)]
      \<and> ''Tl-Signature'' \<notin> set (map fst (sign_headers a))
      \<and> body r = Some (sign_body a))"

text \<open>
  Between the worlds \<open>w\<close> and \<open>w'\<close> the signer was called once and one request was
  sent; the signer returned a signature, and the request is the signed one.
\<close>

definition signed_transmission :: "env \<Rightarrow> world \<Rightarrow> world \<Rightarrow> bool" where
  "signed_transmission env w w' =
     (sign_calls w' = sign_calls w @ [last (sign_calls w')]
      \<and> sent w' = sent w @ [last (sent w')]
      \<and> (case tlSigning_sign env (length (sign_calls w)) (last (sign_calls w')) of
            Inl e \<Rightarrow> False
          | Inr signature \<Rightarrow> signed_as_sent (last (sign_calls w')) signature (last (sent w'))))"

section \<open>Example hosts and worlds\<close>

text \<open>
  A host in the time zone UTC. The builtins are tables: the calendar of October and
  November 2025, the ISO text of three instants, the number of one string, the JSON text
  of two values. The signer stands for a working key.
\<close>

definition example_env :: env where
  "example_env =
     \<lparr> KID = ''kid-1'', PRIVATE_KEY_PEM = ''pem'', CLIENT_ID = ''client-1'',
       CLIENT_SECRET = ''secret'', MERCHANT_ACCOUNT_ID = ''m-1'',
       AUTH_URI = ''https://auth.truelayer.com/connect/token'',
       BASE_URI = ''https://api.truelayer.com'',
       tlSigning_sign =
         (\<lambda>n a. if kid a = [] then Inl SigningError else Inr (''sig'' @ nat_to_string n)),
       StringToNumber = (\<lambda>s. if s = ''3600'' then Finite 3600 else NaN),
       LocalTZA = (\<lambda>t isUTC. 0),
       month_start = (\<lambda>t. if 20393 \<le> Day t \<and> Day t < 20423 then 20393 else 20362),
       toISOString =
         (\<lambda>t. if t = 1762776000000 then ''2025-11-10T12:00:00.000Z''
              else if t = 1760184000000 then ''2025-10-11T12:00:00.000Z''
              else if t = 1760180400000 then ''2025-10-11T11:00:00.000Z''
              else []),
       Date_parse = (\<lambda>s. if s = ''2025-11-10T12:00:00.000Z'' then Some 1762776000000 else None),
       JSON_stringify = (\<lambda>v indent. if v = JObj [] then ''{}'' else if v = JArr [] then ''[]'' else []),
       error_toString =
         (\<lambda>e. case e of
                NetworkError \<Rightarrow> ''TypeError: fetch failed''
              | SyntaxError \<Rightarrow> ''SyntaxError: Unexpected end of JSON input''
              | RangeError \<Rightarrow> ''RangeError: Invalid time value''
              | _ \<Rightarrow> ''Error'') \<rparr>"


text \<open>A world at 2025-11-10T12:00:00.000Z where nothing has happened yet.\<close>

definition example_world :: "(nat \<Rightarrow> int) \<Rightarrow> (nat \<Rightarrow> reply) \<Rightarrow> world" where
  "example_world ck nt =
     \<lparr> clock = ck, reads = 0, net = nt, sent = [], sign_calls = [],
       uuids = (\<lambda>n. ''uuid-'' @ nat_to_string n), drawn = 0, console = [] \<rparr>"

definition noon :: "nat \<Rightarrow> int" where
  "noon n = 1762776000000"

text \<open>The state at start, and a state whose token is valid for an hour.\<close>

definition fresh :: "(nat \<Rightarrow> reply) \<Rightarrow> state" where
  "fresh nt = \<lparr> cache = tokenCache, world = example_world noon nt \<rparr>"

definition warm :: "(nat \<Rightarrow> reply) \<Rightarrow> state" where
  "warm nt = \<lparr> cache = \<lparr> token = JStr ''tok'', expiresAt = Finite 1762779600000 \<rparr>,
               world = example_world noon nt \<rparr>"

definition token_reply :: "string \<Rightarrow> reply" where
  "token_reply t =
     Response 200 (Json (JObj [(''access_token'', JStr t), (''expires_in'', JNum 3600),
                               (''token_type'', JStr ''Bearer'')]))"

text \<open>A state whose token expires within the buffer.\<close>

definition stale :: "(nat \<Rightarrow> reply) \<Rightarrow> state" where
  "stale nt = \<lparr> cache = \<lparr> token = JStr ''old'', expiresAt = Finite 1762776030000 \<rparr>,
                world = example_world noon nt \<rparr>"

text \<open>A token response without \<^verbatim>\<open>access_token\<close>, and the body of an API error.\<close>

definition no_token_body :: jsval where
  "no_token_body = JObj [(''token_type'', JStr ''Bearer'')]"

definition not_found :: jsval where
  "not_found = JObj [(''title'', JStr ''Not Found''), (''status'', JNum 404)]"

text \<open>The body of a request that was refused, and a token that lives \<open>2^53 - 1\<close> seconds.\<close>

definition bad_request :: jsval where
  "bad_request = JObj [(''title'', JStr ''Invalid Parameters''), (''status'', JNum 400)]"


text \<open>A network that answers the first request with a token and every later one with \<open>rep\<close>.\<close>

definition token_then :: "reply \<Rightarrow> nat \<Rightarrow> reply" where
  "token_then rep n = (if n = 0 then token_reply ''t1'' else rep)"

section \<open>Properties of the token manager\<close>

lemmas token_defs = getAccessToken_def isTokenValid_def generateAccessToken_def Date_now_def
  fetch_def sign_def console_error_def Let_def js_gt_def

lemmas op_defs = getPayout_def getPayment_def getPaymentLink_def createPayout_def
  createPaymentLink_def listTransactions_def uuidv4_def

lemmas example_defs = example_env_def example_world_def noon_def fresh_def warm_def
  stale_def token_reply_def tokenCache_def config_def ok_def



text \<open>
  C2. When the cached token is not \<^verbatim>\<open>null\<close> and its expiry is later than the reading
  of the clock plus the buffer of 60000 ms, \<^verbatim>\<open>getAccessToken\<close> returns the cached token,
  leaves the cache as it is, sends no request and does not call the signer.
\<close>

theorem getAccessToken_cache_hit:
  assumes "token (cache s) \<noteq> JNull"
      and "expiresAt (cache s) = Finite e \<and> e > clock (world s) (reads (world s)) + 60000
           \<or> expiresAt (cache s) = PlusInfinity"
  shows "fst (getAccessToken env s) = Inr (token (cache s))
       \<and> cache (snd (getAccessToken env s)) = cache s
       \<and> sent (world (snd (getAccessToken env s))) = sent (world s)
       \<and> sign_calls (world (snd (getAccessToken env s))) = sign_calls (world s)"
  using assms by (auto simp add: token_defs config_def)

theorem getAccessToken_cache_hit_witness:
  "fst (getAccessToken example_env (warm (\<lambda>n. NetworkFailure))) = Inr (JStr ''tok'')
   \<and> cache (snd (getAccessToken example_env (warm (\<lambda>n. NetworkFailure))))
       = \<lparr> token = JStr ''tok'', expiresAt = Finite 1762779600000 \<rparr>
   \<and> sent (world (snd (getAccessToken example_env (warm (\<lambda>n. NetworkFailure))))) = []"
proof -
  have h1: "token (cache (warm (\<lambda>n. NetworkFailure))) \<noteq> JNull"
    by (simp add: example_defs)
  have h2: "expiresAt (cache (warm (\<lambda>n. NetworkFailure))) = Finite 1762779600000
              \<and> 1762779600000 > clock (world (warm (\<lambda>n. NetworkFailure)))
                                      (reads (world (warm (\<lambda>n. NetworkFailure)))) + 60000
            \<or> expiresAt (cache (warm (\<lambda>n. NetworkFailure))) = PlusInfinity"
    by (simp add: example_defs)
  show ?thesis
    using getAccessToken_cache_hit [OF h1 h2, of example_env]
    by (simp add: example_defs)
qed

text \<open>
  C3. When a call of \<^verbatim>\<open>getAccessToken\<close> sends the token request and the reply has a
  status outside 200..299, the call fails with the error that carries the status, and the
  cache (token and expiry) is as it was before the call.
\<close>

theorem getAccessToken_exchange_rejected:
  assumes "sent (world (snd (getAccessToken env s))) \<noteq> sent (world s)"
      and "net (world s) (length (sent (world s))) = Response status b"
      and "\<not> ok status"
  shows "fst (getAccessToken env s) = Inl (HttpError status)
       \<and> cache (snd (getAccessToken env s)) = cache s"
  using assms by (auto simp add: token_defs split: if_splits sum.splits prod.splits)

theorem getAccessToken_exchange_rejected_witness:
  "fst (getAccessToken example_env (stale (\<lambda>n. Response 401 NotJson))) = Inl (HttpError 401)
   \<and> cache (snd (getAccessToken example_env (stale (\<lambda>n. Response 401 NotJson))))
       = \<lparr> token = JStr ''old'', expiresAt = Finite 1762776030000 \<rparr>"
proof -
  have h1: "sent (world (snd (getAccessToken example_env (stale (\<lambda>n. Response 401 NotJson)))))
            \<noteq> sent (world (stale (\<lambda>n. Response 401 NotJson)))"
    by (simp add: token_defs example_defs)
  have h2: "net (world (stale (\<lambda>n. Response 401 NotJson)))
              (length (sent (world (stale (\<lambda>n. Response 401 NotJson))))) = Response 401 NotJson"
    by (simp add: example_defs)
  have h3: "\<not> ok 401"
    by (simp add: ok_def)
  show ?thesis
    using getAccessToken_exchange_rejected [OF h1 h2 h3]
    by (simp add: example_defs)
qed

text \<open>
  C4, as stated, fails: a reply with status 200 whose JSON body has no \<^verbatim>\<open>access_token\<close>
  is returned by the token exchange as its result.
\<close>

theorem generateAccessToken_missing_token_counterexample:
  "net (example_world noon (\<lambda>n. Response 200 (Json no_token_body))) 0
     = Response 200 (Json no_token_body)
   \<and> ok 200
   \<and> get_prop no_token_body ''access_token'' = Inr JUndefined
   \<and> fst (generateAccessToken example_env
            (example_world noon (\<lambda>n. Response 200 (Json no_token_body)))) = Inr no_token_body"
  by (simp add: token_defs example_defs no_token_body_def)

text \<open>
  C4, amended. When the token request is sent and the reply has a status in 200..299, the
  exchange fails if the body is not JSON, and returns the parsed body otherwise, whether
  or not it has an \<^verbatim>\<open>access_token\<close>.
\<close>

theorem generateAccessToken_ok_body:
  assumes "sent (snd (generateAccessToken env w)) \<noteq> sent w"
      and "net w (length (sent w)) = Response status b"
      and "ok status"
  shows "fst (generateAccessToken env w)
           = (case b of NotJson \<Rightarrow> Inl SyntaxError | Json data \<Rightarrow> Inr data)"
  using assms
  by (auto simp add: token_defs split: if_splits sum.splits prod.splits payload.splits)

theorem generateAccessToken_ok_body_witness:
  "fst (generateAccessToken example_env (example_world noon (\<lambda>n. Response 200 NotJson)))
     = Inl SyntaxError"
proof -
  have h1: "sent (snd (generateAccessToken example_env
                         (example_world noon (\<lambda>n. Response 200 NotJson))))
            \<noteq> sent (example_world noon (\<lambda>n. Response 200 NotJson))"
    by (simp add: token_defs example_defs)
  have h2: "net (example_world noon (\<lambda>n. Response 200 NotJson))
              (length (sent (example_world noon (\<lambda>n. Response 200 NotJson))))
            = Response 200 NotJson"
    by (simp add: example_defs)
  have h3: "ok 200"
    by (simp add: ok_def)
  show ?thesis
    using generateAccessToken_ok_body [OF h1 h2 h3] by simp
qed






section \<open>What a call leaves untouched\<close>

lemmas gen_splits = prod.splits sum.splits reply.splits payload.splits

lemma generateAccessToken_frame:
  "net (snd (generateAccessToken env w)) = net w"
  "clock (snd (generateAccessToken env w)) = clock w"
  "reads (snd (generateAccessToken env w)) = reads w"
  "uuids (snd (generateAccessToken env w)) = uuids w"
  "drawn (snd (generateAccessToken env w)) = drawn w"
  by (simp_all add: generateAccessToken_def fetch_def sign_def console_error_def Let_def
        split: gen_splits)

lemma getAccessToken_frame:
  "net (world (snd (getAccessToken env s))) = net (world s)"
  "clock (world (snd (getAccessToken env s))) = clock (world s)"
  "uuids (world (snd (getAccessToken env s))) = uuids (world s)"
  "drawn (world (snd (getAccessToken env s))) = drawn (world s)"
  by (simp_all add: getAccessToken_def isTokenValid_def Date_now_def Let_def case_prod_beta
        generateAccessToken_frame split: sum.splits)

lemma generateAccessToken_result:
  "fst (generateAccessToken env w) = Inr data \<Longrightarrow>
     \<exists>status. net w (length (sent w)) = Response status (Json data) \<and> ok status"
  by (auto simp add: generateAccessToken_def fetch_def sign_def console_error_def Let_def
        split: gen_splits if_splits)

lemma isTokenValid_sent: "sent (world (snd (isTokenValid s))) = sent (world s)"
  by (simp add: isTokenValid_def Date_now_def case_prod_beta)

lemma isTokenValid_cache: "cache (snd (isTokenValid s)) = cache s"
  by (simp add: isTokenValid_def Date_now_def case_prod_beta)

text \<open>The token in the cache changes only to the \<^verbatim>\<open>access_token\<close> of a reply that is ok.\<close>

lemma getAccessToken_token:
  "token (cache (snd (getAccessToken env s))) = token (cache s) \<or>
   (\<exists>status data. net (world s) (length (sent (world s))) = Response status (Json data)
       \<and> ok status
       \<and> get_prop data ''access_token'' = Inr (token (cache (snd (getAccessToken env s)))))"
proof (cases "fst (isTokenValid s)")
  case True
  then show ?thesis
    by (simp add: getAccessToken_def case_prod_beta isTokenValid_cache)
next
  case False
  show ?thesis
  proof (cases "fst (generateAccessToken env (world (snd (isTokenValid s))))")
    case (Inl e)
    with False show ?thesis
      by (simp add: getAccessToken_def case_prod_beta isTokenValid_cache)
  next
    case (Inr data)
    from generateAccessToken_result [OF Inr] obtain status where
      "net (world s) (length (sent (world s))) = Response status (Json data)" "ok status"
      by (auto simp add: isTokenValid_sent isTokenValid_def Date_now_def case_prod_beta
            split: if_splits)
    with False Inr show ?thesis
      by (auto simp add: getAccessToken_def case_prod_beta isTokenValid_cache Date_now_def
            Let_def split: sum.splits)
  qed
qed

lemma calls_token_ok:
  assumes "\<And>k status data tok. net (world s) k = Response status (Json data) \<Longrightarrow> ok status
             \<Longrightarrow> get_prop data ''access_token'' = Inr tok \<Longrightarrow> token_ok tok"
      and "token_ok (token (cache s))"
  shows "token_ok (token (cache (calls env n s)))"
  using assms
proof (induction n arbitrary: s)
  case 0
  then show ?case by simp
next
  case (Suc n)
  have "token_ok (token (cache (snd (getAccessToken env s))))"
    using getAccessToken_token [of env s] Suc.prems by auto
  moreover have "net (world (snd (getAccessToken env s))) = net (world s)"
    by (rule getAccessToken_frame)
  ultimately show ?case
    using Suc.IH [of "snd (getAccessToken env s)"] Suc.prems(1) by simp
qed

lemma null_token_exchange:
  assumes "token (cache s) = JNull"
  shows "length (sign_calls (world (snd (getAccessToken env s))))
           = Suc (length (sign_calls (world s)))
       \<and> (sent (world (snd (getAccessToken env s))) = sent (world s)
            \<longrightarrow> isl (fst (getAccessToken env s)))"
  using assms
  by (auto simp add: getAccessToken_def isTokenValid_def generateAccessToken_def fetch_def
        sign_def console_error_def Let_def Date_now_def split: gen_splits)

text \<open>
  C6, as stated, fails: after one call whose exchange is answered with status 200 and
  \<^verbatim>\<open>access_token\<close> the empty string, the cached token is the empty string.
\<close>

theorem cached_token_counterexample:
  "\<not> token_ok (token (cache (calls example_env 1 (fresh (\<lambda>n. token_reply [])))))"
  by (simp add: token_defs example_defs)

text \<open>
  C6, amended. Provided that every reply with a status in 200..299 and a JSON body carries
  an \<^verbatim>\<open>access_token\<close> that is \<^verbatim>\<open>null\<close> or a string that is not empty, in every state
  reached from the start by calls of \<^verbatim>\<open>getAccessToken\<close> the cached token is \<^verbatim>\<open>null\<close> or
  a string that is not empty; and whenever it is \<^verbatim>\<open>null\<close>, the next call starts an
  exchange: it calls the signer, and it fails unless it sends a request.
\<close>

theorem cached_token_invariant:
  assumes "\<And>k status data tok. net w k = Response status (Json data) \<Longrightarrow> ok status
             \<Longrightarrow> get_prop data ''access_token'' = Inr tok \<Longrightarrow> token_ok tok"
  shows "token_ok (token (cache (calls env n \<lparr> cache = tokenCache, world = w \<rparr>)))
       \<and> (token (cache (calls env n \<lparr> cache = tokenCache, world = w \<rparr>)) = JNull \<longrightarrow>
            length (sign_calls (world (snd (getAccessToken env
                      (calls env n \<lparr> cache = tokenCache, world = w \<rparr>)))))
              = Suc (length (sign_calls (world (calls env n \<lparr> cache = tokenCache, world = w \<rparr>))))
            \<and> (sent (world (snd (getAccessToken env
                      (calls env n \<lparr> cache = tokenCache, world = w \<rparr>))))
                  = sent (world (calls env n \<lparr> cache = tokenCache, world = w \<rparr>))
                \<longrightarrow> isl (fst (getAccessToken env
                      (calls env n \<lparr> cache = tokenCache, world = w \<rparr>)))))"
proof -
  have "token_ok (token (cache (calls env n \<lparr> cache = tokenCache, world = w \<rparr>)))"
    by (rule calls_token_ok) (use assms in \<open>auto simp add: tokenCache_def\<close>)
  then show ?thesis
    using null_token_exchange by blast
qed

theorem cached_token_invariant_witness:
  "token_ok (token (cache (calls example_env 2 (fresh (\<lambda>n. token_reply ''t1'')))))
   \<and> token (cache (calls example_env 0 (fresh (\<lambda>n. token_reply ''t1'')))) = JNull
   \<and> length (sign_calls (world (snd (getAccessToken example_env
               (calls example_env 0 (fresh (\<lambda>n. token_reply ''t1'')))))))
       = Suc (length (sign_calls (world (calls example_env 0 (fresh (\<lambda>n. token_reply ''t1''))))))"
proof -
  have h: "\<And>k status data tok.
             net (example_world noon (\<lambda>n. token_reply ''t1'')) k = Response status (Json data)
             \<Longrightarrow> ok status \<Longrightarrow> get_prop data ''access_token'' = Inr tok \<Longrightarrow> token_ok tok"
    by (auto simp add: example_world_def token_reply_def)
  have n: "token (cache (calls example_env 0 (fresh (\<lambda>n. token_reply ''t1'')))) = JNull"
    by (simp add: fresh_def tokenCache_def)
  show ?thesis
    using cached_token_invariant [OF h, where env = example_env and n = 2]
      cached_token_invariant [OF h, where env = example_env and n = 0] n
    by (simp add: fresh_def)
qed

section \<open>Properties of the API operations\<close>

lemmas encode_defs = params_toString_def form_encode_def encode_byte_def unreserved_def
  hex_digit_def

text \<open>
  C1. The code does not do what the claim says. With a token obtained, the request of
  \<^verbatim>\<open>getPayout\<close> is answered with status 404 and a JSON body: the operation returns that
  body as its result and the tool prints it as the details of the payout. The request of
  \<^verbatim>\<open>createPayout\<close> is answered with status 400 and a JSON body: the operation returns it
  and the tool prints that the payout was created. \<^verbatim>\<open>generateAccessToken\<close>, in the same
  file, throws on the same status.
\<close>

theorem api_status_not_checked:
  "net (world (fresh (token_then (Response 404 (Json not_found))))) 1
     = Response 404 (Json not_found)
   \<and> \<not> ok 404
   \<and> fst (getPayout example_env ''po-1'' (fresh (token_then (Response 404 (Json not_found)))))
       = Inr not_found
   \<and> fst (get_payout_tool example_env ''po-1''
            (fresh (token_then (Response 404 (Json not_found)))))
       = ''Payout details: '' @ JSON_stringify example_env not_found 2
   \<and> \<not> ok 400
   \<and> fst (createPayout example_env (JObj [])
            (fresh (token_then (Response 400 (Json bad_request)))))
       = Inr bad_request
   \<and> fst (create_payout_tool example_env ''GBP'' ''m-1'' 100 (JObj [])
            (fresh (token_then (Response 400 (Json bad_request)))))
       = ''Payout created successfully: '' @ JSON_stringify example_env bad_request 0
   \<and> fst (generateAccessToken example_env
            (example_world noon (\<lambda>n. Response 404 (Json not_found))))
       = Inl (HttpError 404)"
  by (simp add: get_payout_tool_def getPayout_def create_payout_tool_def createPayout_def
        uuidv4_def response_json_def token_defs example_defs token_then_def encode_defs
        nat_to_string.simps)

text \<open>
  What every API operation returns: the failure of the token manager; a failure when
  nothing is sent after the token was obtained; else a failure when \<^verbatim>\<open>fetch\<close> rejects or
  the body is not JSON, and the parsed body otherwise. The status of the response is not
  read.
\<close>

lemma api_result:
  assumes "getAccessToken env s = (r0, s1)" and "call env opn s = (r, s')"
  shows "case r0 of
           Inl e \<Rightarrow> r = Inl e
         | Inr tok \<Rightarrow>
             (sent (world s') = sent (world s1) \<longrightarrow> isl r) \<and>
             (sent (world s') \<noteq> sent (world s1) \<longrightarrow>
                (case net (world s) (length (sent (world s1))) of
                   NetworkFailure \<Rightarrow> r = Inl NetworkError
                 | Response status b \<Rightarrow> r = response_json b))"
proof (cases r0)
  case (Inl e)
  with assms show ?thesis
    by (cases opn) (auto simp add: op_defs)
next
  case (Inr tok)
  have n: "net (world s1) = net (world s)"
    using assms(1) getAccessToken_frame(1) [of env s] by simp
  from Inr assms n show ?thesis
    by (cases opn)
       (auto simp add: op_defs fetch_def sign_def console_error_def Let_def case_prod_beta
             split: sum.splits reply.splits)
qed

section \<open>Signed requests\<close>

lemma generateAccessToken_signed:
  "sent (snd (generateAccessToken env w)) = sent w
   \<or> signed_transmission env w (snd (generateAccessToken env w))"
  by (simp add: generateAccessToken_def fetch_def sign_def console_error_def Let_def
        signed_transmission_def signed_as_sent_def split: gen_splits)

lemma createPayout_signed:
  "sent (world (snd (createPayout env req s))) = sent (world (snd (getAccessToken env s)))
   \<or> signed_transmission env (world (snd (getAccessToken env s)))
        (world (snd (createPayout env req s)))"
  by (simp add: createPayout_def fetch_def sign_def uuidv4_def Let_def case_prod_beta
        signed_transmission_def signed_as_sent_def split: sum.splits)

lemma createPaymentLink_signed:
  "sent (world (snd (createPaymentLink env req s))) = sent (world (snd (getAccessToken env s)))
   \<or> signed_transmission env (world (snd (getAccessToken env s)))
        (world (snd (createPaymentLink env req s)))"
  by (simp add: createPaymentLink_def fetch_def sign_def uuidv4_def Let_def case_prod_beta
        signed_transmission_def signed_as_sent_def split: sum.splits)

text \<open>
  C7. The token exchange, \<^verbatim>\<open>createPayout\<close> and \<^verbatim>\<open>createPaymentLink\<close> (the latter two
  after the token is obtained) either send nothing, or call the signer once and send one
  request: its headers are the headers given to the signer followed by one header
  \<^verbatim>\<open>Tl-Signature\<close> with the signature the signer returned, and its body is the body given
  to the signer.
\<close>

theorem signed_requests_sent_as_signed:
  "(sent (snd (generateAccessToken env w)) = sent w
      \<or> signed_transmission env w (snd (generateAccessToken env w)))
   \<and> (sent (world (snd (createPayout env req s))) = sent (world (snd (getAccessToken env s)))
      \<or> signed_transmission env (world (snd (getAccessToken env s)))
           (world (snd (createPayout env req s))))
   \<and> (sent (world (snd (createPaymentLink env req s))) = sent (world (snd (getAccessToken env s)))
      \<or> signed_transmission env (world (snd (getAccessToken env s)))
           (world (snd (createPaymentLink env req s))))"
  using generateAccessToken_signed createPayout_signed createPaymentLink_signed
  by blast

theorem signed_requests_sent_as_signed_witness:
  "signed_transmission example_env
     (world (snd (getAccessToken example_env (warm (\<lambda>n. Response 200 (Json (JObj []))))))) 
     (world (snd (createPayout example_env (JObj []) (warm (\<lambda>n. Response 200 (Json (JObj [])))))))
   \<and> sent (world (snd (createPayout example_env (JObj []) (warm (\<lambda>n. Response 200 (Json (JObj [])))))))
     = [\<lparr> url = ''https://api.truelayer.com/v3/payouts'', http_method = ''POST'',
          headers = [(''Authorization'', ''Bearer tok''),
                     (''Content-Type'', ''application/json; charset=UTF-8''),
                     (''Accept'', ''application/json; charset=UTF-8''),
                     (''Idempotency-Key'', ''uuid-0''),
                     (''User-Agent'', ''truelayer-mcp/1.0.0''),
                     (''Tl-Signature'', ''sig0'')],
          body = Some ''{}'' \<rparr>]"
proof -
  let ?s = "warm (\<lambda>n. Response 200 (Json (JObj [])))"
  have h1: "getAccessToken example_env ?s
              = (Inr (JStr ''tok''), ?s\<lparr>world := (world ?s)\<lparr>reads := 1\<rparr>\<rparr>)"
    by (simp add: token_defs example_defs)
  have h2: "sent (world (snd (createPayout example_env (JObj []) ?s)))
     = [\<lparr> url = ''https://api.truelayer.com/v3/payouts'', http_method = ''POST'',
          headers = [(''Authorization'', ''Bearer tok''),
                     (''Content-Type'', ''application/json; charset=UTF-8''),
                     (''Accept'', ''application/json; charset=UTF-8''),
                     (''Idempotency-Key'', ''uuid-0''),
                     (''User-Agent'', ''truelayer-mcp/1.0.0''),
                     (''Tl-Signature'', ''sig0'')],
          body = Some ''{}'' \<rparr>]"
    unfolding createPayout_def h1
    by (simp add: fetch_def sign_def uuidv4_def Let_def example_defs nat_to_string.simps)
  have h3: "sent (world (snd (getAccessToken example_env ?s))) = []"
    by (simp add: h1) (simp add: example_defs)
  show ?thesis
    using signed_requests_sent_as_signed
            [where env = example_env and s = ?s and req = "JObj []"] h2 h3
    by simp
qed

section \<open>The query of listTransactions\<close>

text \<open>An encoded string holds none of the characters that structure a URL.\<close>

lemma hex_digit_safe:
  "k < 16 \<Longrightarrow> hex_digit k \<noteq> CHR ''&'' \<and> hex_digit k \<noteq> CHR ''='' \<and> hex_digit k \<noteq> CHR ''#''"
proof -
  assume "k < 16"
  then have "hex_digit k \<in> set ''0123456789ABCDEF''"
    unfolding hex_digit_def by (intro nth_mem) simp
  then show ?thesis by auto
qed

lemma byte_halves: "of_char c div 16 < (16::nat)" "of_char c mod 16 < (16::nat)"
proof -
  have "of_char c < (256::nat)"
    by simp
  then show "of_char c div 16 < (16::nat)" "of_char c mod 16 < (16::nat)"
    by presburger+
qed

lemma encode_byte_safe:
  "CHR ''&'' \<notin> set (encode_byte c) \<and> CHR ''='' \<notin> set (encode_byte c)
   \<and> CHR ''#'' \<notin> set (encode_byte c)"
proof (cases "unreserved c")
  case True
  then show ?thesis
    by (auto simp add: encode_byte_def unreserved_def)
next
  case False
  have "hex_digit (of_char c div 16) \<noteq> CHR ''&'' \<and> hex_digit (of_char c div 16) \<noteq> CHR ''=''
        \<and> hex_digit (of_char c div 16) \<noteq> CHR ''#''"
    "hex_digit (of_char c mod 16) \<noteq> CHR ''&'' \<and> hex_digit (of_char c mod 16) \<noteq> CHR ''=''
        \<and> hex_digit (of_char c mod 16) \<noteq> CHR ''#''"
    by (simp_all add: hex_digit_safe byte_halves)
  with False show ?thesis
    by (auto simp add: encode_byte_def)
qed

lemma form_encode_safe:
  "CHR ''&'' \<notin> set (form_encode x) \<and> CHR ''='' \<notin> set (form_encode x)
   \<and> CHR ''#'' \<notin> set (form_encode x)"
  using encode_byte_safe by (auto simp add: form_encode_def)

text \<open>Decoding undoes encoding.\<close>

lemma hex_val_digit: "k < 16 \<Longrightarrow> hex_val (hex_digit k) = Some k"
proof -
  assume "k < 16"
  then have "k \<in> {0, 1, 2, 3, 4, 5, 6, 7, 8, 9, 10, 11, 12, 13, 14, 15}"
    by simp presburger
  then show ?thesis
    by (auto simp add: hex_val_def hex_digit_def)
qed

lemma form_decode_byte: "form_decode (encode_byte c @ rest) = c # form_decode rest"
proof (cases "unreserved c")
  case True
  then have "c \<noteq> CHR ''+''" "c \<noteq> CHR ''%''"
    by (auto simp add: unreserved_def)
  with True show ?thesis
    by (simp add: encode_byte_def)
next
  case False
  have "16 * (of_char c div 16) + of_char c mod 16 = (of_char c :: nat)"
    by simp
  then have "char_of (16 * (of_char c div 16) + of_char c mod 16 :: nat) = c"
    by simp
  with False show ?thesis
    by (simp add: encode_byte_def hex_val_digit byte_halves)
qed

lemma form_decode_encode: "form_decode (form_encode s) = s"
  by (induction s) (simp_all add: form_encode_def form_decode_byte)

text \<open>Splitting undoes joining, when no piece holds the separator.\<close>

lemma split_on_whole: "d \<notin> set x \<Longrightarrow> split_on d x = [x]"
  by (induction x) auto

lemma split_on_append: "d \<notin> set x \<Longrightarrow> split_on d (x @ d # r) = x # split_on d r"
  by (induction x) auto

lemma split_on_join:
  "\<forall>x \<in> set xs. d \<notin> set x \<Longrightarrow> xs \<noteq> [] \<Longrightarrow> split_on d (join [d] xs) = xs"
proof (induction xs)
  case Nil
  then show ?case by simp
next
  case (Cons x xs)
  show ?case
  proof (cases xs)
    case Nil
    with Cons.prems show ?thesis
      by (simp add: split_on_whole)
  next
    case (Cons y ys)
    with Cons.prems Cons.IH show ?thesis
      by (simp add: split_on_append)
  qed
qed

lemma parse_pair:
  "(\<lambda>p. (form_decode (takeWhile (\<lambda>c. c \<noteq> CHR ''='') p),
          form_decode (drop 1 (dropWhile (\<lambda>c. c \<noteq> CHR ''='') p))))
     (form_encode k @ ''='' @ form_encode v) = (k, v)"
proof -
  have "\<forall>c \<in> set (form_encode k). c \<noteq> CHR ''=''"
    using form_encode_safe [of k] by auto
  then show ?thesis
    by (simp add: takeWhile_append2 dropWhile_append3 form_decode_encode
          dropWhile_eq_Nil_conv)
qed

lemma parse_query_params: "parse_query (params_toString ps) = ps"
proof (cases "ps = []")
  case True
  then show ?thesis
    by (simp add: parse_query_def params_toString_def)
next
  case False
  let ?enc = "\<lambda>(k, v). form_encode k @ ''='' @ form_encode v"
  have a: "\<forall>x \<in> set (map ?enc ps). CHR ''&'' \<notin> set x"
    using form_encode_safe by auto
  have b: "\<forall>x \<in> set (map ?enc ps). x \<noteq> []"
    by auto
  have "split_on CHR ''&'' (join ''&'' (map ?enc ps)) = map ?enc ps"
    using split_on_join [OF a] False by simp
  moreover have "filter (\<lambda>p. p \<noteq> []) (map ?enc ps) = map ?enc ps"
    using b by (simp only: filter_id_conv) 
  ultimately have "parse_query (params_toString ps)
        = map (\<lambda>p. (form_decode (takeWhile (\<lambda>c. c \<noteq> CHR ''='') p),
                     form_decode (drop 1 (dropWhile (\<lambda>c. c \<noteq> CHR ''='') p))))
              (map ?enc ps)"
    by (simp only: parse_query_def params_toString_def)
  also have "\<dots> = ps"
    using parse_pair by (induction ps) auto
  finally show ?thesis .
qed

lemma params_no_hash: "CHR ''#'' \<notin> set (params_toString ps)"
proof (induction ps rule: induct_list012)
  case 1
  then show ?case by (simp add: params_toString_def)
next
  case (2 x)
  then show ?case
    using form_encode_safe by (cases x) (simp add: params_toString_def)
next
  case (3 x y zs)
  then show ?case
    using form_encode_safe by (cases x) (simp add: params_toString_def)
qed

lemma url_query_append:
  assumes "CHR ''?'' \<notin> set p" and "CHR ''#'' \<notin> set p" and "CHR ''#'' \<notin> set q"
  shows "url_query (p @ ''?'' @ q) = q"
proof -
  have t: "takeWhile (\<lambda>c. c \<noteq> CHR ''#'') (p @ ''?'' @ q) = p @ ''?'' @ q"
    using assms by (auto simp add: takeWhile_eq_all_conv)
  have d: "dropWhile (\<lambda>c. c \<noteq> CHR ''?'') (p @ ''?'' @ q) = ''?'' @ q"
    using assms(1) by (auto simp add: dropWhile_append3 dropWhile_eq_Nil_conv)
  show ?thesis
    unfolding url_query_def t d by simp
qed

lemma listTransactions_sent:
  assumes "getAccessToken env s = (Inr tok, s1)"
  shows "sent (world (snd (listTransactions env f t m c s)))
           = sent (world s1) @
             [\<lparr> url = BASE_URI env @ ''/v3/merchant-accounts/'' @ m @ ''/transactions?''
                       @ params_toString ([(''from'', f), (''to'', t)]
                            @ (if given c then [(''cursor'', the c)] else [])),
                http_method = ''GET'',
                headers = [(''Authorization'', ''Bearer '' @ js_to_string tok),
                           (''Accept'', ''application/json; charset=UTF-8''),
                           (''User-Agent'', userAgent config)],
                body = None \<rparr>]"
  using assms
  by (simp add: listTransactions_def fetch_def console_error_def Let_def case_prod_beta
        split: sum.splits reply.splits)

lemma form_encode_names:
  "form_encode ''from'' = ''from''" "form_encode ''to'' = ''to''"
  "form_encode ''cursor'' = ''cursor''"
  by (simp_all add: form_encode_def encode_byte_def unreserved_def)

text \<open>
  C10, as stated, fails: \<^verbatim>\<open>merchant_account_id\<close> goes into the URL as it is. With the id
  \<^verbatim>\<open>m?cursor=evil#\<close> and no \<^verbatim>\<open>cursor\<close>, the query of the URL passed to \<^verbatim>\<open>fetch\<close> is
  \<^verbatim>\<open>cursor=evil\<close>: a \<^verbatim>\<open>cursor\<close> parameter, and neither \<^verbatim>\<open>from\<close> nor \<^verbatim>\<open>to\<close>.
\<close>

theorem listTransactions_query_counterexample:
  "url (last (sent (world (snd (listTransactions example_env ''f'' ''t'' ''m?cursor=evil#'' None
          (warm (\<lambda>n. Response 200 (Json (JArr [])))))))))
     = ''https://api.truelayer.com/v3/merchant-accounts/m?cursor=evil#/transactions?from=f&to=t''
   \<and> parse_query (url_query (url (last (sent (world (snd (listTransactions example_env ''f'' ''t''
          ''m?cursor=evil#'' None (warm (\<lambda>n. Response 200 (Json (JArr [])))))))))))
     = [(''cursor'', ''evil'')]"
  by (simp add: listTransactions_def given_def response_json_def token_defs example_defs
        encode_defs parse_query_def url_query_def)

text \<open>
  C10, amended. When the token is obtained, \<^verbatim>\<open>listTransactions\<close> sends one request, whose
  URL ends in the form-encoded \<^verbatim>\<open>from=...&to=...\<close>, followed by \<^verbatim>\<open>&cursor=...\<close> exactly
  when \<^verbatim>\<open>cursor\<close> is a string that is not empty. When neither the base URI nor
  \<^verbatim>\<open>merchant_account_id\<close> holds a \<^verbatim>\<open>?\<close> or a \<^verbatim>\<open>#\<close>, the parameters of the query of
  that URL are exactly \<^verbatim>\<open>from\<close> and \<^verbatim>\<open>to\<close> with the values given, and then \<^verbatim>\<open>cursor\<close>
  only when it is a string that is not empty.
\<close>

theorem listTransactions_query:
  assumes "getAccessToken env s = (Inr tok, s1)"
  shows "sent (world (snd (listTransactions env f t m c s)))
           = sent (world s1) @ [last (sent (world (snd (listTransactions env f t m c s))))]
       \<and> url (last (sent (world (snd (listTransactions env f t m c s)))))
           = BASE_URI env @ ''/v3/merchant-accounts/'' @ m @ ''/transactions?''
             @ (if c = None \<or> c = Some []
                then ''from='' @ form_encode f @ ''&to='' @ form_encode t
                else ''from='' @ form_encode f @ ''&to='' @ form_encode t
                     @ ''&cursor='' @ form_encode (the c))
       \<and> (CHR ''?'' \<notin> set (BASE_URI env @ m) \<and> CHR ''#'' \<notin> set (BASE_URI env @ m) \<longrightarrow>
            parse_query (url_query (url (last (sent (world (snd (listTransactions env f t m c s)))))))
              = (if c = None \<or> c = Some [] then [(''from'', f), (''to'', t)]
                 else [(''from'', f), (''to'', t), (''cursor'', the c)]))"
proof -
  let ?ps = "[(''from'', f), (''to'', t)] @ (if given c then [(''cursor'', the c)] else [])"
  let ?p = "BASE_URI env @ ''/v3/merchant-accounts/'' @ m @ ''/transactions''"
  have s: "sent (world (snd (listTransactions env f t m c s)))
           = sent (world s1) @
             [\<lparr> url = ?p @ ''?'' @ params_toString ?ps,
                http_method = ''GET'',
                headers = [(''Authorization'', ''Bearer '' @ js_to_string tok),
                           (''Accept'', ''application/json; charset=UTF-8''),
                           (''User-Agent'', userAgent config)],
                body = None \<rparr>]"
    using listTransactions_sent [OF assms, of f t m c] by simp
  have g: "given c \<longleftrightarrow> \<not> (c = None \<or> c = Some [])"
    by (auto simp add: given_def split: option.splits)
  have u: "url (last (sent (world (snd (listTransactions env f t m c s)))))
             = ?p @ ''?'' @ params_toString ?ps"
    by (simp add: s)
  have q: "CHR ''?'' \<notin> set (BASE_URI env @ m) \<and> CHR ''#'' \<notin> set (BASE_URI env @ m) \<longrightarrow>
            parse_query (url_query (?p @ ''?'' @ params_toString ?ps)) = ?ps"
  proof
    assume "CHR ''?'' \<notin> set (BASE_URI env @ m) \<and> CHR ''#'' \<notin> set (BASE_URI env @ m)"
    then have "CHR ''?'' \<notin> set ?p" "CHR ''#'' \<notin> set ?p"
      by auto
    then have "url_query (?p @ ''?'' @ params_toString ?ps) = params_toString ?ps"
      using params_no_hash by (rule url_query_append)
    then show "parse_query (url_query (?p @ ''?'' @ params_toString ?ps)) = ?ps"
      by (simp only: parse_query_params)
  qed
  have t: "params_toString ?ps
             = (if c = None \<or> c = Some []
                then ''from='' @ form_encode f @ ''&to='' @ form_encode t
                else ''from='' @ form_encode f @ ''&to='' @ form_encode t
                     @ ''&cursor='' @ form_encode (the c))"
    by (simp add: g params_toString_def form_encode_names)
  show ?thesis
    using s u q t g by (simp del: append_assoc)
qed

theorem listTransactions_query_witness:
  "parse_query (url_query (url (last (sent (world (snd (listTransactions example_env
          ''2025-10-11T12:00:00.000Z'' ''2025-11-10T12:00:00.000Z'' ''m-1'' (Some [])
          (warm (\<lambda>n. Response 200 (Json (JArr []))))))))))) 
     = [(''from'', ''2025-10-11T12:00:00.000Z''), (''to'', ''2025-11-10T12:00:00.000Z'')]
   \<and> url (last (sent (world (snd (listTransactions example_env ''2025-10-11T12:00:00.000Z''
          ''2025-11-10T12:00:00.000Z'' ''m-1'' (Some []) (warm (\<lambda>n. Response 200 (Json (JArr []))))))))) 
     = ''https://api.truelayer.com/v3/merchant-accounts/m-1/transactions?from=2025-10-11T12%3A00%3A00.000Z&to=2025-11-10T12%3A00%3A00.000Z''"
proof -
  let ?s = "warm (\<lambda>n. Response 200 (Json (JArr [])))"
  have h1: "getAccessToken example_env ?s
              = (Inr (JStr ''tok''), ?s\<lparr>world := (world ?s)\<lparr>reads := 1\<rparr>\<rparr>)"
    by (simp add: token_defs example_defs)
  have h2: "CHR ''?'' \<notin> set (BASE_URI example_env @ ''m-1'')
            \<and> CHR ''#'' \<notin> set (BASE_URI example_env @ ''m-1'')"
    by (simp add: example_env_def)
  have e: "form_encode ''2025-10-11T12:00:00.000Z'' = ''2025-10-11T12%3A00%3A00.000Z''"
          "form_encode ''2025-11-10T12:00:00.000Z'' = ''2025-11-10T12%3A00%3A00.000Z''"
    by (simp_all add: form_encode_def encode_byte_def unreserved_def hex_digit_def)
  have b: "BASE_URI example_env = ''https://api.truelayer.com''"
    by (simp add: example_env_def)
  note q = listTransactions_query [OF h1, of "''2025-10-11T12:00:00.000Z''"
             "''2025-11-10T12:00:00.000Z''" "''m-1''" "Some []"]
  have "parse_query (url_query (url (last (sent (world (snd (listTransactions
          example_env ''2025-10-11T12:00:00.000Z'' ''2025-11-10T12:00:00.000Z'' ''m-1'' (Some [])
          ?s)))))))
     = (if Some [] = (None :: string option) \<or> Some [] = Some ([] :: string)
        then [(''from'', ''2025-10-11T12:00:00.000Z''), (''to'', ''2025-11-10T12:00:00.000Z'')]
        else [(''from'', ''2025-10-11T12:00:00.000Z''), (''to'', ''2025-11-10T12:00:00.000Z''),
              (''cursor'', the (Some []))])"
    using q [THEN conjunct2, THEN conjunct2, THEN mp, OF h2] .
  then have p: "parse_query (url_query (url (last (sent (world (snd (listTransactions
          example_env ''2025-10-11T12:00:00.000Z'' ''2025-11-10T12:00:00.000Z'' ''m-1'' (Some [])
          ?s)))))))
     = [(''from'', ''2025-10-11T12:00:00.000Z''), (''to'', ''2025-11-10T12:00:00.000Z'')]"
    by simp
  have u: "url (last (sent (world (snd (listTransactions example_env
          ''2025-10-11T12:00:00.000Z'' ''2025-11-10T12:00:00.000Z'' ''m-1'' (Some []) ?s)))))
     = ''https://api.truelayer.com/v3/merchant-accounts/m-1/transactions?from=2025-10-11T12%3A00%3A00.000Z&to=2025-11-10T12%3A00%3A00.000Z''"
    using q [THEN conjunct2, THEN conjunct1] by (simp add: e b)
  from p u show ?thesis
    by (rule conjI)
qed

section \<open>The defaults of the list-transactions tool\<close>









end
